theory Spec2Isabelle
  imports Complex_Main
begin

section \<open>Values, errors and records of \<^verbatim>\<open>app.py\<close>\<close>

text \<open>
  The application is a Flask program over four SQLAlchemy models. Handlers are modelled
  as functions from the request, the client's session and the database to either a raised
  exception or a response with the new session and database.

  Python \<^verbatim>\<open>str\<close> is \<^typ>\<open>string\<close>, one \<^typ>\<open>char\<close> per code point (code points
  below 256 only). A Python \<^verbatim>\<open>float\<close> is \<open>pyfloat\<close>: the real number a finite
  double denotes, an infinity or NaN. The values a JSON body can hold are \<open>pyval\<close>;
  a \<^verbatim>\<open>dict\<close> is an association list in insertion order.
\<close>

datatype pyfloat = Finite real | PosInf | NegInf | NaN

datatype pyval =
    PNone
  | PBool bool
  | PInt int
  | PFloat pyfloat
  | PStr string
  | PList "pyval list"
  | PDict "(string \<times> pyval) list"

text \<open>Python's truth value of an object, as \<^verbatim>\<open>not x\<close> and \<^verbatim>\<open>x or y\<close> use it.\<close>

fun truthy :: "pyval \<Rightarrow> bool" where
  "truthy PNone = False"
| "truthy (PBool b) = b"
| "truthy (PInt i) = (i \<noteq> 0)"
| "truthy (PFloat x) = (x \<noteq> Finite 0)"
| "truthy (PStr s) = (s \<noteq> [])"
| "truthy (PList xs) = (xs \<noteq> [])"
| "truthy (PDict kvs) = (kvs \<noteq> [])"

text \<open>The truth value of \<^verbatim>\<open>request.form.get(k)\<close>: a string or \<^verbatim>\<open>None\<close>.\<close>

fun truthy_str :: "string option \<Rightarrow> bool" where
  "truthy_str None = False"
| "truthy_str (Some s) = (s \<noteq> [])"

text \<open>\<^verbatim>\<open>d.get(k, default)\<close> on a dict.\<close>

definition dict_get :: "(string \<times> pyval) list \<Rightarrow> string \<Rightarrow> pyval \<Rightarrow> pyval" where
  "dict_get d k dflt = (case map_of d k of None \<Rightarrow> dflt | Some v \<Rightarrow> v)"

text \<open>
  The exceptions a handler can raise. Flask answers \<open>NotFound\<close> with status 404,
  \<open>MethodNotAllowed\<close> with 405, the two request errors with 400 and 415, and every other
  exception with 500. \<open>InterfaceError\<close> is what the database driver raises for a
  parameter of a type it cannot bind.
\<close>

datatype error =
    NotFound
  | MethodNotAllowed
  | BadRequest
  | UnsupportedMediaType
  | AttributeError
  | TypeError
  | ValueError
  | OverflowError
  | IntegrityError
  | InterfaceError

fun status_code :: "error \<Rightarrow> nat" where
  "status_code NotFound = 404"
| "status_code MethodNotAllowed = 405"
| "status_code BadRequest = 400"
| "status_code UnsupportedMediaType = 415"
| "status_code e = 500"

subsection \<open>Models\<close>

record service =
  service_id :: int
  service_name :: string
  description :: string
  price_display :: string
  image_file :: string

record user =
  user_id :: int
  username :: string
  password_hash :: string

text \<open>
  An \<^verbatim>\<open>Order\<close> keeps \<open>name\<close>, \<open>email\<close> and \<open>message\<close> as the handler passes them: the
  values come from a JSON body, and the form the store gives a number in a text column is
  not modelled.
\<close>

record order_row =
  order_id :: int
  items_json :: string
  order_total :: pyfloat
  order_name :: pyval
  order_email :: pyval
  order_message :: pyval
  order_created_at :: nat

record contact =
  contact_id :: int
  contact_name :: string
  contact_email :: string
  contact_message :: string
  contact_created_at :: nat

record db =
  services :: "service list"
  users :: "user list"
  orders :: "order_row list"
  contacts :: "contact list"

text \<open>
  An integer primary key: the row identifier SQLite gives a new row is one more than the
  largest in the table, and 1 in an empty table.
\<close>

definition next_id :: "int list \<Rightarrow> int" where
  "next_id ids = (case ids of [] \<Rightarrow> 1 | x # xs \<Rightarrow> fold max xs x + 1)"

subsection \<open>Inserts, updates and deletes\<close>

text \<open>
  Every column declared \<^verbatim>\<open>nullable=False\<close> refuses \<^verbatim>\<open>None\<close>: the commit raises
  \<open>IntegrityError\<close> and nothing is written. An update writes the attributes of the loaded
  object back to the row of its primary key.
\<close>

definition add_user :: "string \<Rightarrow> string \<Rightarrow> db \<Rightarrow> db" where
  "add_user uname pwhash d =
     d\<lparr>users := users d @
       [\<lparr>user_id = next_id (map user_id (users d)), username = uname, password_hash = pwhash\<rparr>]\<rparr>"

text \<open>\<^verbatim>\<open>Service(**svc)\<close> with the identifier the store gives it.\<close>

definition service_of_seed :: "int \<Rightarrow> string \<times> string \<times> string \<times> string \<Rightarrow> service" where
  "service_of_seed i svc =
     (case svc of (n, de, p, im) \<Rightarrow>
        \<lparr>service_id = i, service_name = n, description = de, price_display = p,
         image_file = im\<rparr>)"

definition add_service_row :: "string \<times> string \<times> string \<times> string \<Rightarrow> db \<Rightarrow> db" where
  "add_service_row svc d =
     d\<lparr>services := services d @ [service_of_seed (next_id (map service_id (services d))) svc]\<rparr>"

definition commit_service ::
  "string option \<Rightarrow> string option \<Rightarrow> string option \<Rightarrow> string \<Rightarrow> db \<Rightarrow> error + db" where
  "commit_service name descr price img d =
     (case (name, descr, price) of
        (Some n, Some de, Some p) \<Rightarrow> Inr (add_service_row (n, de, p, img) d)
      | _ \<Rightarrow> Inl IntegrityError)"

definition commit_service_update ::
  "service \<Rightarrow> string option \<Rightarrow> string option \<Rightarrow> string option \<Rightarrow> string \<Rightarrow> db \<Rightarrow> error + db" where
  "commit_service_update svc name descr price img d =
     (case (name, descr, price) of
        (Some n, Some de, Some p) \<Rightarrow>
          Inr (d\<lparr>services :=
            map (\<lambda>s. if service_id s = service_id svc
                      then svc\<lparr>service_name := n, description := de, price_display := p,
                               image_file := img\<rparr>
                      else s) (services d)\<rparr>)
      | _ \<Rightarrow> Inl IntegrityError)"

definition delete_service_row :: "service \<Rightarrow> db \<Rightarrow> db" where
  "delete_service_row svc d =
     d\<lparr>services := filter (\<lambda>s. service_id s \<noteq> service_id svc) (services d)\<rparr>"

definition commit_contact ::
  "string option \<Rightarrow> string option \<Rightarrow> string option \<Rightarrow> nat \<Rightarrow> db \<Rightarrow> error + db" where
  "commit_contact name email message t d =
     (case (name, email, message) of
        (Some n, Some e, Some m) \<Rightarrow>
          Inr (d\<lparr>contacts := contacts d @
            [\<lparr>contact_id = next_id (map contact_id (contacts d)), contact_name = n,
              contact_email = e, contact_message = m, contact_created_at = t\<rparr>]\<rparr>)
      | _ \<Rightarrow> Inl IntegrityError)"

text \<open>
  The parameters of a statement go through the driver of SQLite: it binds \<^verbatim>\<open>None\<close>, a
  \<^verbatim>\<open>bool\<close>, an \<^verbatim>\<open>int\<close> of 64 bits, a \<^verbatim>\<open>float\<close> and a \<^verbatim>\<open>str\<close>; it raises
  \<open>OverflowError\<close> on a larger \<^verbatim>\<open>int\<close> and \<open>InterfaceError\<close> on a list or a dict.
  SQLite stores NaN as \<^verbatim>\<open>NULL\<close>, which a \<^verbatim>\<open>nullable=False\<close> column refuses.
\<close>

definition sqlite_int :: "int \<Rightarrow> bool" where
  "sqlite_int i = (- (2 ^ 63) \<le> i \<and> i < 2 ^ 63)"

fun bind_param :: "pyval \<Rightarrow> error + pyval" where
  "bind_param (PInt i) = (if sqlite_int i then Inr (PInt i) else Inl OverflowError)"
| "bind_param (PList xs) = Inl InterfaceError"
| "bind_param (PDict kvs) = Inl InterfaceError"
| "bind_param v = Inr v"

definition is_null :: "pyval \<Rightarrow> bool" where
  "is_null v = (v = PNone \<or> v = PFloat NaN)"


definition commit_order ::
  "string \<Rightarrow> pyfloat \<Rightarrow> pyval \<Rightarrow> pyval \<Rightarrow> pyval \<Rightarrow> nat \<Rightarrow> db \<Rightarrow> error + db" where
  "commit_order items t name email message tm d =
     (case bind_param name of
        Inl e \<Rightarrow> Inl e
      | Inr n \<Rightarrow>
         (case bind_param email of
            Inl e \<Rightarrow> Inl e
          | Inr em \<Rightarrow>
             (case bind_param message of
                Inl e \<Rightarrow> Inl e
              | Inr m \<Rightarrow>
                 if t = NaN \<or> is_null n \<or> is_null em then Inl IntegrityError
                 else Inr (d\<lparr>orders := orders d @
                   [\<lparr>order_id = next_id (map order_id (orders d)), items_json = items,
                     order_total = t, order_name = n, order_email = em, order_message = m,
                     order_created_at = tm\<rparr>]\<rparr>))))"

text \<open>
  \<^verbatim>\<open>Service.query.get_or_404(service_id)\<close>: the identifier is a parameter of the query,
  and one that does not fit 64 bits raises \<open>OverflowError\<close> before any row is looked up.
\<close>

definition get_or_404 :: "db \<Rightarrow> int \<Rightarrow> error + service" where
  "get_or_404 d sid =
     (if \<not> sqlite_int sid then Inl OverflowError
      else case find (\<lambda>s. service_id s = sid) (services d) of
             None \<Rightarrow> Inl NotFound
           | Some s \<Rightarrow> Inr s)"

section \<open>Seed data\<close>

definition DEFAULT_ADMIN_USERNAME :: string where
  "DEFAULT_ADMIN_USERNAME = ''admin''"

definition DEFAULT_ADMIN_PASSWORD :: string where
  "DEFAULT_ADMIN_PASSWORD = ''admin123''"

text \<open>
  The catalogue. Two descriptions hold the non-breaking hyphen U+2011, written here as
  the three bytes of its UTF-8 form.
\<close>

definition nb_hyphen :: string where
  "nb_hyphen = [CHR 0xE2, CHR 0x80, CHR 0x91]"

definition services_seed :: "(string \<times> string \<times> string \<times> string) list" where
  "services_seed =
    [(''Market Research'',
      ''Gain deep insights into your market and customers to make informed decisions.'',
      ''Starting from $2,999'', ''market_research.png''),
     (''Marketing'',
      ''Reach your audience with effective marketing strategies and campaigns.'',
      ''Design Your Bundle'', ''lead_generation.png''),
     (''Apps and Software Development'',
      ''Build high'' @ nb_hyphen @ ''quality applications and software tailored to your needs.'',
      ''Starting from $9,999'', ''apps_development.png''),
     (''Business Strategy'',
      ''Develop a clear business strategy that aligns with your goals and vision.'',
      ''$2,999'', ''business_strategy.png''),
     (''Operational Reporting'',
      ''Monitor and improve your operations with comprehensive reporting tools.'',
      ''Check Monthly / Yearly Bundles'', ''operational_reporting.png''),
     (''Offshore Teams'',
      ''Build and manage offshore call centers and social media management teams to enhance efficiency and reduce costs.'',
      ''Tailored pricing'', ''offshore_teams.png''),
     (''Lead Generation'',
      ''Generate high'' @ nb_hyphen @ ''quality leads through targeted strategies and tools to grow your customer base.'',
      ''Tailored pricing'', ''lead_generation.png'')]"

text \<open>
  \<^verbatim>\<open>seed_data\<close>. The first argument is \<^verbatim>\<open>generate_password_hash\<close> of werkzeug, which
  salts at random: it is a parameter, one function per call of the seeder.
\<close>

definition seed_data :: "(string \<Rightarrow> string) \<Rightarrow> db \<Rightarrow> db" where
  "seed_data generate_password_hash d =
     (let d1 = (if users d = []
                then add_user DEFAULT_ADMIN_USERNAME
                       (generate_password_hash DEFAULT_ADMIN_PASSWORD) d
                else d)
      in if length (services d1) = 0 then fold add_service_row services_seed d1 else d1)"

section \<open>Library functions the handlers call\<close>

subsection \<open>\<^verbatim>\<open>float(x)\<close>\<close>

text \<open>
  \<^verbatim>\<open>float\<close> of an \<^verbatim>\<open>int\<close> is the nearest double, ties to even, and raises
  \<open>OverflowError\<close> beyond the range of a double: integers below \<open>2^53\<close> in magnitude are
  exact. \<^verbatim>\<open>float\<close> of a \<^verbatim>\<open>str\<close> parses it, also to an infinity or to NaN, or raises
  \<open>ValueError\<close>: the parser is the parameter \<open>float_of_str\<close>. \<^verbatim>\<open>None\<close>, a list and a
  dict raise \<open>TypeError\<close>.
\<close>

fun bit_length :: "nat \<Rightarrow> nat" where
  "bit_length n = (if n = 0 then 0 else Suc (bit_length (n div 2)))"

declare bit_length.simps [simp del]

definition float_of_int :: "int \<Rightarrow> error + pyfloat" where
  "float_of_int i =
     (let a = nat \<bar>i\<bar> in
      if a < 2 ^ 53 then Inr (Finite (of_int i))
      else
        let e = bit_length a - 53;
            q = a div 2 ^ e;
            r = a mod 2 ^ e;
            h = 2 ^ (e - 1);
            q' = (if h < r \<or> (r = h \<and> odd q) then q + 1 else q)
        in if 2 ^ 1024 \<le> q' * 2 ^ e then Inl OverflowError
           else Inr (Finite (of_int (sgn i * int (q' * 2 ^ e)))))"

fun py_float :: "(string \<Rightarrow> pyfloat option) \<Rightarrow> pyval \<Rightarrow> error + pyfloat" where
  "py_float float_of_str PNone = Inl TypeError"
| "py_float float_of_str (PBool b) = Inr (Finite (if b then 1 else 0))"
| "py_float float_of_str (PInt i) = float_of_int i"
| "py_float float_of_str (PFloat x) = Inr x"
| "py_float float_of_str (PStr s) =
     (case float_of_str s of None \<Rightarrow> Inl ValueError | Some x \<Rightarrow> Inr x)"
| "py_float float_of_str (PList xs) = Inl TypeError"
| "py_float float_of_str (PDict kvs) = Inl TypeError"

subsection \<open>\<^verbatim>\<open>json.dumps\<close>\<close>

text \<open>
  \<^verbatim>\<open>json.dumps\<close> with its defaults: separators \<^verbatim>\<open>", "\<close> and \<^verbatim>\<open>": "\<close>, and
  \<^verbatim>\<open>ensure_ascii\<close>, which escapes the quote, the backslash and every character outside
  the printable ASCII range. A finite float is written by \<^verbatim>\<open>float.__repr__\<close>, the
  parameter \<open>float_repr\<close>; NaN and the infinities are written as the names JavaScript has
  for them.
\<close>

definition digit_char :: "nat \<Rightarrow> char" where
  "digit_char n = ''0123456789abcdef'' ! (n mod 16)"

fun digits :: "nat \<Rightarrow> string" where
  "digits n = (if n < 10 then [digit_char n] else digits (n div 10) @ [digit_char (n mod 10)])"

declare digits.simps [simp del]

definition str_int :: "int \<Rightarrow> string" where
  "str_int i = (if i < 0 then CHR ''-'' # digits (nat (- i)) else digits (nat i))"

definition escape_char :: "char \<Rightarrow> string" where
  "escape_char c =
     (let n = (of_char c :: nat) in
      if c = CHR 0x5C then [CHR 0x5C, CHR 0x5C]
      else if c = CHR 0x22 then [CHR 0x5C, CHR 0x22]
      else if c = CHR 0x08 then [CHR 0x5C, CHR ''b'']
      else if c = CHR 0x0C then [CHR 0x5C, CHR ''f'']
      else if c = CHR 0x0A then [CHR 0x5C, CHR ''n'']
      else if c = CHR 0x0D then [CHR 0x5C, CHR ''r'']
      else if c = CHR 0x09 then [CHR 0x5C, CHR ''t'']
      else if n < 0x20 \<or> 0x7E < n then
        [CHR 0x5C, CHR ''u'', digit_char (n div 4096), digit_char (n div 256),
         digit_char (n div 16), digit_char n]
      else [c])"

definition encode_basestring_ascii :: "string \<Rightarrow> string" where
  "encode_basestring_ascii s = CHR 0x22 # concat (map escape_char s) @ [CHR 0x22]"

fun join :: "string \<Rightarrow> string list \<Rightarrow> string" where
  "join sep [] = []"
| "join sep [x] = x"
| "join sep (x # y # ys) = x @ sep @ join sep (y # ys)"

fun dumps :: "(real \<Rightarrow> string) \<Rightarrow> pyval \<Rightarrow> string" where
  "dumps float_repr PNone = ''null''"
| "dumps float_repr (PBool b) = (if b then ''true'' else ''false'')"
| "dumps float_repr (PInt i) = str_int i"
| "dumps float_repr (PFloat x) =
     (case x of
        Finite r \<Rightarrow> float_repr r
      | PosInf \<Rightarrow> ''Infinity''
      | NegInf \<Rightarrow> ''-Infinity''
      | NaN \<Rightarrow> ''NaN'')"
| "dumps float_repr (PStr s) = encode_basestring_ascii s"
| "dumps float_repr (PList xs) = ''['' @ join '', '' (map (dumps float_repr) xs) @ '']''"
| "dumps float_repr (PDict kvs) =
     ''{'' @ join '', ''
        (map (\<lambda>kv. encode_basestring_ascii (fst kv) @ '': '' @ dumps float_repr (snd kv)) kvs)
      @ ''}''"

subsection \<open>\<^verbatim>\<open>json.loads\<close>\<close>

text \<open>
  The read-back of \<open>items_json\<close> is not in \<^verbatim>\<open>app.py\<close>: the inverse of \<^verbatim>\<open>json.dumps\<close> is
  \<^verbatim>\<open>json.loads\<close> of Python, modelled here as its decoder works. Code points from 256
  on are outside the model: the scanner returns \<open>None\<close> on them.
\<close>

text \<open>The four whitespace characters of JSON, and the decimal and hexadecimal digits.\<close>

definition is_ws :: "char \<Rightarrow> bool" where
  "is_ws c = (c = CHR '' '' \<or> c = CHR 0x09 \<or> c = CHR 0x0A \<or> c = CHR 0x0D)"

definition skip_ws :: "string \<Rightarrow> string" where
  "skip_ws s = dropWhile is_ws s"















subsection \<open>Values that a JSON body holds\<close>










section \<open>Requests, sessions and responses\<close>

datatype http_method = GET | POST

text \<open>
  What a handler reads of the request: the method, \<^verbatim>\<open>request.path\<close>, \<^verbatim>\<open>request.form\<close>,
  what \<^verbatim>\<open>request.get_json()\<close> returns or raises, and the clock \<^verbatim>\<open>datetime.utcnow\<close>
  that stamps a new row.
\<close>

record request =
  req_method :: http_method
  path :: string
  form :: "string \<rightharpoonup> string"
  get_json :: "error + pyval"
  utcnow :: nat

type_synonym session = "string \<rightharpoonup> pyval"

text \<open>\<^verbatim>\<open>session.get(k)\<close>: \<^verbatim>\<open>None\<close> for a missing key.\<close>

definition session_get :: "session \<Rightarrow> string \<Rightarrow> pyval" where
  "session_get s k = (case s k of None \<Rightarrow> PNone | Some v \<Rightarrow> v)"

datatype url = Url_for string "(string \<times> string) list"

datatype template_arg =
    Services "service list"
  | Orders "order_row list"
  | Contacts "contact list"
  | Error string
  | Service "service option"

datatype response =
    Render_template string "(string \<times> template_arg) list"
  | Redirect url
  | Jsonify pyval nat

type_synonym handler = "request \<Rightarrow> session \<Rightarrow> db \<Rightarrow> error + (response \<times> session \<times> db)"

section \<open>Handlers\<close>

subsection \<open>Auth utilities\<close>

text \<open>The decorator \<^verbatim>\<open>admin_required\<close>: a wrapper around a handler.\<close>

definition admin_required :: "handler \<Rightarrow> handler" where
  "admin_required f req sess d =
     (if \<not> truthy (session_get sess ''admin_logged_in'')
      then Inr (Redirect (Url_for ''login'' [(''next'', path req)]), sess, d)
      else f req sess d)"

subsection \<open>Public routes\<close>

definition index :: handler where
  "index req sess d = Inr (Render_template ''index.html'' [(''services'', Services (services d))], sess, d)"

definition services_page :: handler where
  "services_page req sess d =
     Inr (Render_template ''services.html'' [(''services'', Services (services d))], sess, d)"

definition about_page :: handler where
  "about_page req sess d = Inr (Render_template ''about.html'' [], sess, d)"

definition blog_page :: handler where
  "blog_page req sess d = Inr (Render_template ''blog.html'' [], sess, d)"

definition contact_page :: handler where
  "contact_page req sess d =
     (if req_method req = POST then
        let name = form req ''name'';
            email = form req ''email'';
            message = form req ''message''
        in if \<not> list_all truthy_str [name, email, message]
           then Inr (Jsonify (PDict [(''status'', PStr ''error''),
                                      (''message'', PStr ''All fields are required.'')]) 400,
                     sess, d)
           else (case commit_contact name email message (utcnow req) d of
                   Inl e \<Rightarrow> Inl e
                 | Inr d' \<Rightarrow> Inr (Jsonify (PDict [(''status'', PStr ''success'')]) 200, sess, d'))
      else Inr (Render_template ''contact.html'' [], sess, d))"

definition checkout_page :: handler where
  "checkout_page req sess d = Inr (Render_template ''checkout.html'' [], sess, d)"

text \<open>
  \<^verbatim>\<open>order\<close>. \<^verbatim>\<open>request.get_json() or {}\<close> may be any JSON value: \<^verbatim>\<open>data.get\<close> exists
  on a dict only, and raises \<open>AttributeError\<close> on anything else. The keyword arguments
  of \<^verbatim>\<open>Order(...)\<close> are evaluated before the row is added.
\<close>

definition order :: "(string \<Rightarrow> pyfloat option) \<Rightarrow> (real \<Rightarrow> string) \<Rightarrow> handler" where
  "order float_of_str float_repr req sess d =
     (case get_json req of
        Inl e \<Rightarrow> Inl e
      | Inr body \<Rightarrow>
         (case (if truthy body then body else PDict []) of
            PDict data \<Rightarrow>
              let items = dict_get data ''items'' (PList []);
                  total = dict_get data ''total'' (PInt 0);
                  name = dict_get data ''name'' PNone;
                  email = dict_get data ''email'' PNone;
                  message = dict_get data ''message'' (PStr [])
              in if \<not> truthy items \<or> \<not> truthy name \<or> \<not> truthy email
                 then Inr (Jsonify (PDict [(''status'', PStr ''error''),
                                            (''message'', PStr ''Missing required information.'')]) 400,
                           sess, d)
                 else (case py_float float_of_str total of
                         Inl e \<Rightarrow> Inl e
                       | Inr t \<Rightarrow>
                          (case commit_order (dumps float_repr items) t name email message
                                  (utcnow req) d of
                             Inl e \<Rightarrow> Inl e
                           | Inr d' \<Rightarrow>
                               Inr (Jsonify (PDict [(''status'', PStr ''success'')]) 200, sess, d')))
          | _ \<Rightarrow> Inl AttributeError))"

subsection \<open>Admin\<close>

text \<open>
  \<^verbatim>\<open>User.verify_password\<close> calls \<^verbatim>\<open>check_password_hash\<close> of werkzeug on the stored hash
  and on what the form gave for the password. The function is a parameter on strings; it
  encodes the password first, and \<^verbatim>\<open>None\<close>, which a form without the field gives, has
  no \<^verbatim>\<open>encode\<close>: \<open>AttributeError\<close>.
\<close>

definition verify_password ::
  "(string \<Rightarrow> string \<Rightarrow> bool) \<Rightarrow> user \<Rightarrow> string option \<Rightarrow> error + bool" where
  "verify_password check_password_hash u password =
     (case password of
        None \<Rightarrow> Inl AttributeError
      | Some p \<Rightarrow> Inr (check_password_hash (password_hash u) p))"

definition login :: "(string \<Rightarrow> string \<Rightarrow> bool) \<Rightarrow> handler" where
  "login check_password_hash req sess d =
     (if req_method req = POST then
        let uname = form req ''username'';
            password = form req ''password'';
            user = find (\<lambda>u. Some (username u) = uname) (users d)
        in (case user of
              None \<Rightarrow>
                Inr (Render_template ''login.html'' [(''error'', Error ''Invalid credentials'')],
                     sess, d)
            | Some u \<Rightarrow>
               (case verify_password check_password_hash u password of
                  Inl e \<Rightarrow> Inl e
                | Inr ok \<Rightarrow>
                    if ok
                    then Inr (Redirect (Url_for ''dashboard'' []),
                              sess(''admin_logged_in'' \<mapsto> PBool True), d)
                    else Inr (Render_template ''login.html''
                                [(''error'', Error ''Invalid credentials'')], sess, d)))
      else Inr (Render_template ''login.html'' [], sess, d))"

definition logout :: handler where
  "logout req sess d = Inr (Redirect (Url_for ''login'' []), sess(''admin_logged_in'' := None), d)"

text \<open>
  The dashboard lists orders and contacts by \<^verbatim>\<open>created_at\<close>, newest first; rows of one
  timestamp stay in the order of the table, the earlier row first.
\<close>

definition dashboard :: handler where
  "dashboard = admin_required (\<lambda>req sess d.
     Inr (Render_template ''dashboard.html''
            [(''services'', Services (services d)),
             (''orders'', Orders (sort_key (\<lambda>r. - int (order_created_at r)) (orders d))),
             (''contacts'',
              Contacts (sort_key (\<lambda>r. - int (contact_created_at r)) (contacts d)))],
          sess, d))"

definition add_service :: handler where
  "add_service = admin_required (\<lambda>req sess d.
     if req_method req = POST then
       let name = form req ''name'';
           descr = form req ''description'';
           price = form req ''price_display'';
           img = (case form req ''image_file'' of
                    None \<Rightarrow> ''placeholder.png''
                  | Some i \<Rightarrow> if i \<noteq> [] then i else ''placeholder.png'')
       in if \<not> list_all truthy_str [name, descr, price]
          then Inr (Render_template ''service_form.html''
                      [(''error'', Error ''All fields are required''), (''service'', Service None)],
                    sess, d)
          else (case commit_service name descr price img d of
                  Inl e \<Rightarrow> Inl e
                | Inr d' \<Rightarrow> Inr (Redirect (Url_for ''dashboard'' []), sess, d'))
     else Inr (Render_template ''service_form.html'' [(''service'', Service None)], sess, d))"

definition edit_service :: "int \<Rightarrow> handler" where
  "edit_service sid = admin_required (\<lambda>req sess d.
     case get_or_404 d sid of
       Inl e \<Rightarrow> Inl e
     | Inr svc \<Rightarrow>
        if req_method req = POST then
          let name = form req ''name'';
              descr = form req ''description'';
              price = form req ''price_display'';
              img = (case form req ''image_file'' of
                       None \<Rightarrow> image_file svc
                     | Some i \<Rightarrow> if i \<noteq> [] then i else image_file svc)
          in (case commit_service_update svc name descr price img d of
                Inl e \<Rightarrow> Inl e
              | Inr d' \<Rightarrow> Inr (Redirect (Url_for ''dashboard'' []), sess, d'))
        else Inr (Render_template ''service_form.html'' [(''service'', Service (Some svc))],
                  sess, d))"

definition delete_service :: "int \<Rightarrow> handler" where
  "delete_service sid = admin_required (\<lambda>req sess d.
     case get_or_404 d sid of
       Inl e \<Rightarrow> Inl e
     | Inr svc \<Rightarrow> Inr (Redirect (Url_for ''dashboard'' []), sess, delete_service_row svc d))"

subsection \<open>Legal\<close>

definition privacy_policy :: handler where
  "privacy_policy req sess d = Inr (Render_template ''privacy-policy.html'' [], sess, d)"

definition terms_and_conditions :: handler where
  "terms_and_conditions req sess d =
     Inr (Render_template ''terms-and-conditions.html'' [], sess, d)"

section \<open>The route table\<close>

datatype endpoint =
    Index
  | Services_page
  | About_page
  | Blog_page
  | Contact_page
  | Checkout_page
  | Order
  | Login
  | Logout
  | Dashboard
  | Add_service
  | Edit_service int
  | Delete_service int
  | Privacy_policy
  | Terms_and_conditions

text \<open>The methods of \<^verbatim>\<open>@app.route\<close>: \<^verbatim>\<open>GET\<close> where none are given.\<close>

fun methods :: "endpoint \<Rightarrow> http_method list" where
  "methods Contact_page = [GET, POST]"
| "methods Order = [POST]"
| "methods Login = [GET, POST]"
| "methods Add_service = [GET, POST]"
| "methods (Edit_service sid) = [GET, POST]"
| "methods (Delete_service sid) = [POST]"
| "methods ep = [GET]"

text \<open>The routes under \<^verbatim>\<open>/admin/\<close>.\<close>

fun admin_route :: "endpoint \<Rightarrow> bool" where
  "admin_route Login = True"
| "admin_route Logout = True"
| "admin_route Dashboard = True"
| "admin_route Add_service = True"
| "admin_route (Edit_service sid) = True"
| "admin_route (Delete_service sid) = True"
| "admin_route ep = False"

record library =
  check_password_hash :: "string \<Rightarrow> string \<Rightarrow> bool"
  float_of_str :: "string \<Rightarrow> pyfloat option"
  float_repr :: "real \<Rightarrow> string"

fun view_function :: "library \<Rightarrow> endpoint \<Rightarrow> handler" where
  "view_function lib Index = index"
| "view_function lib Services_page = services_page"
| "view_function lib About_page = about_page"
| "view_function lib Blog_page = blog_page"
| "view_function lib Contact_page = contact_page"
| "view_function lib Checkout_page = checkout_page"
| "view_function lib Order = order (float_of_str lib) (float_repr lib)"
| "view_function lib Login = login (check_password_hash lib)"
| "view_function lib Logout = logout"
| "view_function lib Dashboard = dashboard"
| "view_function lib Add_service = add_service"
| "view_function lib (Edit_service sid) = edit_service sid"
| "view_function lib (Delete_service sid) = delete_service sid"
| "view_function lib Privacy_policy = privacy_policy"
| "view_function lib Terms_and_conditions = terms_and_conditions"

text \<open>
  One request: the router refuses a method the route does not list, the view function
  runs, and an exception leaves session and database as they were.
\<close>

definition dispatch :: "library \<Rightarrow> endpoint \<Rightarrow> handler" where
  "dispatch lib ep req sess d =
     (if req_method req \<in> set (methods ep) then view_function lib ep req sess d
      else Inl MethodNotAllowed)"

definition serve ::
  "library \<Rightarrow> endpoint \<Rightarrow> request \<Rightarrow> session \<Rightarrow> db \<Rightarrow> (nat + response) \<times> session \<times> db" where
  "serve lib ep req sess d =
     (case dispatch lib ep req sess d of
        Inl e \<Rightarrow> (Inl (status_code e), sess, d)
      | Inr (r, sess', d') \<Rightarrow> (Inr r, sess', d'))"

section \<open>Example inputs\<close>

definition empty_db :: db where
  "empty_db = \<lparr>services = [], users = [], orders = [], contacts = []\<rparr>"

text \<open>A stand-in for the library: the hash of a password is the password after a \<open>$\<close>.\<close>

definition toy_hash :: "string \<Rightarrow> string" where
  "toy_hash p = CHR ''$'' # p"

definition toy_library :: library where
  "toy_library =
     \<lparr>check_password_hash = (\<lambda>h p. h = toy_hash p),
      float_of_str = (\<lambda>s. if s = ''12.5'' then Some (Finite 12.5)
                           else if s = ''nan'' then Some NaN else None),
      float_repr = (\<lambda>x. if x = 12.5 then ''12.5'' else ''0.0'')\<rparr>"

definition form_request :: "http_method \<Rightarrow> string \<Rightarrow> (string \<times> string) list \<Rightarrow> request" where
  "form_request m p f =
     \<lparr>req_method = m, path = p, form = map_of f, get_json = Inl UnsupportedMediaType, utcnow = 7\<rparr>"

definition json_request :: "string \<Rightarrow> pyval \<Rightarrow> request" where
  "json_request p body =
     \<lparr>req_method = POST, path = p, form = Map.empty, get_json = Inr body, utcnow = 7\<rparr>"

definition admin_session :: session where
  "admin_session = [''admin_logged_in'' \<mapsto> PBool True]"

definition one_service_db :: db where
  "one_service_db =
     \<lparr>services = [\<lparr>service_id = 1, service_name = ''Marketing'', description = ''Campaigns'',
                    price_display = ''$10'', image_file = ''m.png''\<rparr>],
      users = [], orders = [], contacts = []\<rparr>"


section \<open>Contact submissions\<close>

text \<open>
  Claim C2. A POST to \<^verbatim>\<open>/contact\<close> whose form has a non-empty name, email and message
  adds exactly one Contact row with these three values to the store and answers
  \<^verbatim>\<open>{"status": "success"}\<close>; when one of the three is missing or empty the store is
  unchanged and the answer is \<^verbatim>\<open>{"status": "error", "message": ...}\<close> with status 400.
\<close>

theorem contact_post:
  assumes "req_method req = POST"
  shows "(form req ''name'' = Some n \<and> form req ''email'' = Some e \<and> form req ''message'' = Some m
            \<and> n \<noteq> [] \<and> e \<noteq> [] \<and> m \<noteq> [] \<longrightarrow>
          serve lib Contact_page req sess d =
            (Inr (Jsonify (PDict [(''status'', PStr ''success'')]) 200), sess,
             d\<lparr>contacts := contacts d @
               [\<lparr>contact_id = next_id (map contact_id (contacts d)), contact_name = n,
                 contact_email = e, contact_message = m, contact_created_at = utcnow req\<rparr>]\<rparr>))
       \<and> (\<not> (truthy_str (form req ''name'') \<and> truthy_str (form req ''email'')
            \<and> truthy_str (form req ''message'')) \<longrightarrow>
          serve lib Contact_page req sess d =
            (Inr (Jsonify (PDict [(''status'', PStr ''error''),
                                  (''message'', PStr ''All fields are required.'')]) 400),
             sess, d))"
  using assms
  by (auto simp: serve_def dispatch_def contact_page_def commit_contact_def)

theorem contact_post_witness:
  "serve toy_library Contact_page
     (form_request POST ''/contact''
        [(''name'', ''Ann''), (''email'', ''a@b.c''), (''message'', ''Hi'')])
     Map.empty empty_db =
   (Inr (Jsonify (PDict [(''status'', PStr ''success'')]) 200), Map.empty,
    empty_db\<lparr>contacts := [\<lparr>contact_id = 1, contact_name = ''Ann'', contact_email = ''a@b.c'',
                             contact_message = ''Hi'', contact_created_at = 7\<rparr>]\<rparr>)
   \<and> serve toy_library Contact_page
     (form_request POST ''/contact'' [(''name'', ''Ann''), (''email'', []), (''message'', ''Hi'')])
     Map.empty empty_db =
   (Inr (Jsonify (PDict [(''status'', PStr ''error''),
                         (''message'', PStr ''All fields are required.'')]) 400),
    Map.empty, empty_db)"
  using contact_post [of "form_request POST ''/contact''
        [(''name'', ''Ann''), (''email'', ''a@b.c''), (''message'', ''Hi'')]"
      "''Ann''" "''a@b.c''" "''Hi''" toy_library Map.empty empty_db]
     contact_post [of "form_request POST ''/contact''
        [(''name'', ''Ann''), (''email'', []), (''message'', ''Hi'')]"
      "''Ann''" "[]" "''Hi''" toy_library Map.empty empty_db]
  by (simp add: form_request_def empty_db_def next_id_def)

section \<open>The seeder\<close>

lemma users_fold_seed: "users (fold add_service_row xs d) = users d"
  by (induction xs arbitrary: d) (auto simp: add_service_row_def)

lemma users_seed_data:
  "users (seed_data g d) =
     (if users d = []
      then [\<lparr>user_id = 1, username = DEFAULT_ADMIN_USERNAME,
              password_hash = g DEFAULT_ADMIN_PASSWORD\<rparr>]
      else users d)"
  by (simp add: seed_data_def Let_def users_fold_seed add_user_def next_id_def)

lemma services_fold_seed:
  "services d = [] \<Longrightarrow>
   fold add_service_row services_seed d =
     d\<lparr>services := map2 service_of_seed [1, 2, 3, 4, 5, 6, 7] services_seed\<rparr>"
  by (simp add: services_seed_def add_service_row_def next_id_def service_of_seed_def)

text \<open>
  Claim C4. Seeding is idempotent: a second run, even with another salt, changes nothing,
  so it adds no second admin and no second copy of the catalogue. The admin is inserted
  only when there is no User, and then it is the only one; the seven catalogue Services,
  numbered 1 to 7, are inserted only when there is no Service.
\<close>

theorem seed_data_idempotent:
  "seed_data g2 (seed_data g1 d) = seed_data g1 d
   \<and> (users d \<noteq> [] \<longrightarrow> users (seed_data g1 d) = users d)
   \<and> (users d = [] \<longrightarrow> users (seed_data g1 d) =
         [\<lparr>user_id = 1, username = DEFAULT_ADMIN_USERNAME,
           password_hash = g1 DEFAULT_ADMIN_PASSWORD\<rparr>])
   \<and> (services d \<noteq> [] \<longrightarrow> services (seed_data g1 d) = services d)
   \<and> (services d = [] \<longrightarrow> services (seed_data g1 d) =
         map2 service_of_seed [1, 2, 3, 4, 5, 6, 7] services_seed)
   \<and> length services_seed = 7"
proof -
  let ?d1 = "if users d = []
             then add_user DEFAULT_ADMIN_USERNAME (g1 DEFAULT_ADMIN_PASSWORD) d else d"
  have s1: "services ?d1 = services d" by (simp add: add_user_def)
  have u1: "users ?d1 \<noteq> []" by (simp add: add_user_def)
  have sd: "seed_data g1 d =
      (if services d = [] then fold add_service_row services_seed ?d1 else ?d1)"
    using s1 by (simp add: seed_data_def Let_def)
  have us: "users (seed_data g1 d) = users ?d1"
    unfolding sd by (simp add: users_fold_seed)
  have ss: "services (seed_data g1 d) =
      (if services d = [] then map2 service_of_seed [1, 2, 3, 4, 5, 6, 7] services_seed
       else services d)"
    unfolding sd using s1 services_fold_seed [of ?d1] by (simp add: services_seed_def)
  have ne: "services (seed_data g1 d) \<noteq> []"
    unfolding ss by (simp add: services_seed_def)
  have idem: "seed_data g2 (seed_data g1 d) = seed_data g1 d"
    using u1 ne us unfolding seed_data_def [of g2] by (simp add: Let_def)
  have len: "length services_seed = 7" by (simp add: services_seed_def)
  show ?thesis
    using idem us ss len by (simp add: add_user_def next_id_def)
qed

theorem seed_data_idempotent_witness:
  "users empty_db = [] \<and> services empty_db = []
   \<and> seed_data (\<lambda>p. CHR ''#'' # p) (seed_data toy_hash empty_db) = seed_data toy_hash empty_db
   \<and> users (seed_data toy_hash empty_db) =
       [\<lparr>user_id = 1, username = ''admin'', password_hash = ''$admin123''\<rparr>]
   \<and> length (services (seed_data toy_hash empty_db)) = 7
   \<and> services one_service_db \<noteq> []
   \<and> services (seed_data toy_hash one_service_db) = services one_service_db"
  using seed_data_idempotent [of "\<lambda>p. CHR ''#'' # p" toy_hash empty_db]
        seed_data_idempotent [of toy_hash toy_hash one_service_db]
  by (simp add: empty_db_def one_service_db_def toy_hash_def DEFAULT_ADMIN_USERNAME_def
      DEFAULT_ADMIN_PASSWORD_def)

section \<open>Admin login\<close>

text \<open>
  Claim C5 holds of a form that carries a password and fails on one that does not. For
  the seeded admin and a form without the password field, \<^verbatim>\<open>verify_password\<close> raises and
  the answer has status 500; the same form with an unknown username is answered by the
  login form with \<open>Invalid credentials\<close>. The two answers tell an unknown user from a
  known one, which the one generic message of the handler is there to prevent.
\<close>

theorem login_no_password:
  "serve toy_library Login
     (form_request POST ''/admin/login'' [(''username'', ''admin'')])
     Map.empty (seed_data toy_hash empty_db)
   = (Inl 500, Map.empty, seed_data toy_hash empty_db)
   \<and> serve toy_library Login
     (form_request POST ''/admin/login'' [(''username'', ''root'')])
     Map.empty (seed_data toy_hash empty_db)
   = (Inr (Render_template ''login.html'' [(''error'', Error ''Invalid credentials'')]),
      Map.empty, seed_data toy_hash empty_db)"
proof -
  have u: "users (seed_data toy_hash empty_db) =
      [\<lparr>user_id = 1, username = ''admin'', password_hash = toy_hash ''admin123''\<rparr>]"
    by (simp add: users_seed_data empty_db_def DEFAULT_ADMIN_USERNAME_def
        DEFAULT_ADMIN_PASSWORD_def)
  show ?thesis
    by (simp add: serve_def dispatch_def login_def verify_password_def Let_def u
        form_request_def)
qed

text \<open>
  With a password in the form the handler does what the claim says. On a store whose
  users are those the seeder made from none, and with a \<^verbatim>\<open>check_password_hash\<close> that
  accepts exactly the password that was hashed: the default username and password set the
  session flag and redirect to the dashboard; another username, or another password,
  leaves session and store as they were and renders the login form with the one error
  \<open>Invalid credentials\<close>.
\<close>

lemma login_with_password:
  assumes "req_method req = POST"
      and "\<forall>q. check_password_hash lib (g DEFAULT_ADMIN_PASSWORD) q
                = (q = DEFAULT_ADMIN_PASSWORD)"
      and "users d0 = []"
      and "users d = users (seed_data g d0)"
  shows "(form req ''username'' = Some DEFAULT_ADMIN_USERNAME
            \<and> form req ''password'' = Some DEFAULT_ADMIN_PASSWORD \<longrightarrow>
          serve lib Login req sess d =
            (Inr (Redirect (Url_for ''dashboard'' [])),
             sess(''admin_logged_in'' \<mapsto> PBool True), d))
       \<and> (form req ''username'' \<noteq> Some DEFAULT_ADMIN_USERNAME
            \<or> (\<exists>q. form req ''password'' = Some q \<and> q \<noteq> DEFAULT_ADMIN_PASSWORD) \<longrightarrow>
          serve lib Login req sess d =
            (Inr (Render_template ''login.html'' [(''error'', Error ''Invalid credentials'')]),
             sess, d))"
proof -
  have u: "users d = [\<lparr>user_id = 1, username = DEFAULT_ADMIN_USERNAME,
              password_hash = g DEFAULT_ADMIN_PASSWORD\<rparr>]"
    using assms(3,4) by (simp add: users_seed_data)
  have c: "\<And>q. check_password_hash lib (g DEFAULT_ADMIN_PASSWORD) q
              = (q = DEFAULT_ADMIN_PASSWORD)"
    using assms(2) by blast
  note defs = serve_def dispatch_def login_def verify_password_def Let_def
  show ?thesis
  proof (intro conjI impI)
    assume "form req ''username'' = Some DEFAULT_ADMIN_USERNAME
            \<and> form req ''password'' = Some DEFAULT_ADMIN_PASSWORD"
    then show "serve lib Login req sess d =
            (Inr (Redirect (Url_for ''dashboard'' [])),
             sess(''admin_logged_in'' \<mapsto> PBool True), d)"
      using assms(1) u c by (simp add: defs)
  next
    assume a: "form req ''username'' \<noteq> Some DEFAULT_ADMIN_USERNAME
            \<or> (\<exists>q. form req ''password'' = Some q \<and> q \<noteq> DEFAULT_ADMIN_PASSWORD)"
    show "serve lib Login req sess d =
            (Inr (Render_template ''login.html'' [(''error'', Error ''Invalid credentials'')]),
             sess, d)"
    proof (cases "form req ''username'' = Some DEFAULT_ADMIN_USERNAME")
      case False
      then have "Some DEFAULT_ADMIN_USERNAME \<noteq> form req ''username''" by auto
      then show ?thesis using assms(1) u by (simp add: defs)
    next
      case True
      with a obtain q where "form req ''password'' = Some q" "q \<noteq> DEFAULT_ADMIN_PASSWORD"
        by blast
      with True show ?thesis using assms(1) u c by (simp add: defs)
    qed
  qed
qed

section \<open>The admin guard\<close>

text \<open>
  Claim C1, as the specification states it, has every route under \<^verbatim>\<open>/admin/\<close> but the
  login behind the guard, \<^verbatim>\<open>/admin/logout\<close> among them. The program does not wrap
  \<^verbatim>\<open>logout\<close> in \<^verbatim>\<open>admin_required\<close>: on a session the guard refuses, here one whose flag
  is \<^verbatim>\<open>False\<close>, the handler runs and removes the key.
\<close>

theorem logout_counterexample:
  "\<not> truthy (session_get [''admin_logged_in'' \<mapsto> PBool False] ''admin_logged_in'')
   \<and> serve toy_library Logout (form_request GET ''/admin/logout'' [])
        [''admin_logged_in'' \<mapsto> PBool False] empty_db
      = (Inr (Redirect (Url_for ''login'' [])), Map.empty, empty_db)
   \<and> [''admin_logged_in'' \<mapsto> PBool False] \<noteq> (Map.empty :: session)"
proof -
  have "[''admin_logged_in'' \<mapsto> PBool False] ''admin_logged_in''
          \<noteq> (Map.empty :: session) ''admin_logged_in''"
    by simp
  then have "[''admin_logged_in'' \<mapsto> PBool False] \<noteq> (Map.empty :: session)"
    by metis
  then show ?thesis
    by (simp add: serve_def dispatch_def logout_def form_request_def session_get_def)
qed

text \<open>
  Claim C1, amended. A request to the dashboard, to the add, edit or delete route of a
  service, by a method the route lists and with a session whose \<open>admin_logged_in\<close> is
  missing or false, runs no handler: session and store stay as they are and the response
  redirects to the login with the requested path as \<open>next\<close>. \<^verbatim>\<open>/admin/logout\<close> is not
  guarded: on every session, logged in or not, it removes the key from the session,
  redirects to the login without \<open>next\<close> and leaves the store; when the key is missing
  the session is unchanged too.
\<close>

theorem admin_gate:
  assumes "admin_route ep" and "ep \<noteq> Login"
      and "req_method req \<in> set (methods ep)"
  shows "(ep \<noteq> Logout \<and> \<not> truthy (session_get sess ''admin_logged_in'') \<longrightarrow>
            serve lib ep req sess d =
              (Inr (Redirect (Url_for ''login'' [(''next'', path req)])), sess, d))
       \<and> (ep = Logout \<longrightarrow>
            serve lib ep req sess d =
              (Inr (Redirect (Url_for ''login'' [])), sess(''admin_logged_in'' := None), d)
            \<and> (sess(''admin_logged_in'' := None)) ''admin_logged_in'' = None)
       \<and> (ep = Logout \<and> sess ''admin_logged_in'' = None \<longrightarrow>
            serve lib ep req sess d = (Inr (Redirect (Url_for ''login'' [])), sess, d))"
proof -
  have "sess ''admin_logged_in'' = None \<Longrightarrow> sess(''admin_logged_in'' := None) = sess"
    by (rule ext) simp
  then show ?thesis
    using assms
    by (cases ep)
       (simp_all add: serve_def dispatch_def admin_required_def dashboard_def add_service_def
          edit_service_def delete_service_def logout_def)
qed

theorem admin_gate_witness:
  "admin_route (Delete_service 1) \<and> POST \<in> set (methods (Delete_service 1))
   \<and> \<not> truthy (session_get Map.empty ''admin_logged_in'')
   \<and> serve toy_library (Delete_service 1)
        (form_request POST ''/admin/services/delete/1'' []) Map.empty one_service_db
      = (Inr (Redirect (Url_for ''login'' [(''next'', ''/admin/services/delete/1'')])),
         Map.empty, one_service_db)
   \<and> serve toy_library Dashboard (form_request GET ''/admin/dashboard'' []) Map.empty
        one_service_db
      = (Inr (Redirect (Url_for ''login'' [(''next'', ''/admin/dashboard'')])),
         Map.empty, one_service_db)
   \<and> serve toy_library Logout (form_request GET ''/admin/logout'' []) Map.empty one_service_db
      = (Inr (Redirect (Url_for ''login'' [])), Map.empty, one_service_db)
   \<and> serve toy_library Logout (form_request GET ''/admin/logout'' []) admin_session
        one_service_db
      = (Inr (Redirect (Url_for ''login'' [])), Map.empty, one_service_db)"
  using admin_gate [of "Delete_service 1" "form_request POST ''/admin/services/delete/1'' []"
          Map.empty toy_library one_service_db]
        admin_gate [of Dashboard "form_request GET ''/admin/dashboard'' []"
          Map.empty toy_library one_service_db]
        admin_gate [of Logout "form_request GET ''/admin/logout'' []"
          Map.empty toy_library one_service_db]
        admin_gate [of Logout "form_request GET ''/admin/logout'' []"
          admin_session toy_library one_service_db]
  by (simp add: form_request_def session_get_def admin_session_def)

section \<open>Services\<close>

lemma find_service_None:
  "sid \<notin> set (map service_id xs) \<Longrightarrow> find (\<lambda>s. service_id s = sid) xs = None"
  by (induction xs) auto

lemma sqlite_int_range: "0 \<le> i \<Longrightarrow> i < 2 ^ 63 \<Longrightarrow> sqlite_int i"
  by (simp add: sqlite_int_def)

text \<open>
  Claim C9, as stated, is about every identifier no Service has. The route takes any
  sequence of digits as the identifier, and one that does not fit 64 bits, here \<open>2^63\<close>,
  cannot be a parameter of the query: \<^verbatim>\<open>get_or_404\<close> raises \<open>OverflowError\<close> and the
  answer has status 500, not 404.
\<close>

theorem missing_service_overflow:
  "9223372036854775808 \<notin> set (map service_id (services one_service_db))
   \<and> serve toy_library (Delete_service 9223372036854775808)
        (form_request POST ''/admin/services/delete/9223372036854775808'' []) admin_session
        one_service_db
      = (Inl 500, admin_session, one_service_db)
   \<and> serve toy_library (Edit_service 9223372036854775808)
        (form_request GET ''/admin/services/edit/9223372036854775808'' []) admin_session
        one_service_db
      = (Inl 500, admin_session, one_service_db)"
  by (simp add: serve_def dispatch_def delete_service_def edit_service_def
      admin_required_def get_or_404_def sqlite_int_def admin_session_def session_get_def
      one_service_db_def form_request_def)

text \<open>
  Claim C9, amended. With an admin session and an identifier below \<open>2^63\<close> that no
  Service has, a POST to the delete route and a GET or a POST to the edit route raise
  \<open>NotFound\<close>: the answer has status 404, and session and store are unchanged.
\<close>

theorem missing_service_not_found:
  assumes "truthy (session_get sess ''admin_logged_in'')"
      and "0 \<le> sid" and "sid < 2 ^ 63"
      and "sid \<notin> set (map service_id (services d))"
  shows "(req_method req = POST \<longrightarrow>
            serve lib (Delete_service sid) req sess d = (Inl 404, sess, d))
       \<and> serve lib (Edit_service sid) req sess d = (Inl 404, sess, d)"
  using assms(1) find_service_None [OF assms(4)] sqlite_int_range [OF assms(2,3)]
  by (cases "req_method req")
     (simp_all add: serve_def dispatch_def delete_service_def edit_service_def
        admin_required_def get_or_404_def)

theorem missing_service_not_found_witness:
  "truthy (session_get admin_session ''admin_logged_in'')
   \<and> serve toy_library (Delete_service 2)
        (form_request POST ''/admin/services/delete/2'' []) admin_session one_service_db
        = (Inl 404, admin_session, one_service_db)
   \<and> serve toy_library (Edit_service 2)
        (form_request GET ''/admin/services/edit/2'' []) admin_session one_service_db
        = (Inl 404, admin_session, one_service_db)
   \<and> serve toy_library (Edit_service 2)
        (form_request POST ''/admin/services/edit/2'' [(''name'', ''x'')]) admin_session
        one_service_db
        = (Inl 404, admin_session, one_service_db)"
  using missing_service_not_found [of admin_session 2 one_service_db
          "form_request POST ''/admin/services/delete/2'' []" toy_library]
        missing_service_not_found [of admin_session 2 one_service_db
          "form_request GET ''/admin/services/edit/2'' []" toy_library]
        missing_service_not_found [of admin_session 2 one_service_db
          "form_request POST ''/admin/services/edit/2'' [(''name'', ''x'')]" toy_library]
  by (simp add: admin_session_def session_get_def one_service_db_def form_request_def)

text \<open>
  Claim C6, as stated, has every POST to the edit route of an existing Service overwrite
  name, description and price. A POST without an admin session is stopped by the guard
  and overwrites nothing; and a POST whose form lacks the name overwrites nothing
  either, the commit failing on the column that refuses \<^verbatim>\<open>None\<close>.
\<close>

theorem edit_service_counterexample:
  "serve toy_library (Edit_service 1)
     (form_request POST ''/admin/services/edit/1''
        [(''name'', ''Ads''), (''description'', ''New''), (''price_display'', ''$20'')])
     Map.empty one_service_db
   = (Inr (Redirect (Url_for ''login'' [(''next'', ''/admin/services/edit/1'')])),
      Map.empty, one_service_db)
   \<and> serve toy_library (Edit_service 1)
     (form_request POST ''/admin/services/edit/1''
        [(''description'', ''New''), (''price_display'', ''$20'')])
     admin_session one_service_db
   = (Inl 500, admin_session, one_service_db)"
  by (simp add: serve_def dispatch_def edit_service_def admin_required_def get_or_404_def
      sqlite_int_def commit_service_update_def form_request_def admin_session_def
      session_get_def one_service_db_def)

text \<open>
  Claim C6, amended. For a POST with an admin session to the edit route of an existing
  Service whose form carries a non-empty name, description and price_display: the three
  are overwritten with the submitted values; the stored image_file stays when the
  submitted one is missing or empty, and is replaced by the submitted one otherwise; the
  other rows stay; the response redirects to the dashboard.
\<close>

theorem edit_service_post:
  assumes "truthy (session_get sess ''admin_logged_in'')"
      and "find (\<lambda>s. service_id s = sid) (services d) = Some svc"
      and "0 \<le> sid" and "sid < 2 ^ 63"
      and "req_method req = POST"
      and "form req ''name'' = Some n" and "n \<noteq> []"
      and "form req ''description'' = Some de" and "de \<noteq> []"
      and "form req ''price_display'' = Some p" and "p \<noteq> []"
  shows "(\<not> truthy_str (form req ''image_file'') \<longrightarrow>
            serve lib (Edit_service sid) req sess d =
              (Inr (Redirect (Url_for ''dashboard'' [])), sess,
               d\<lparr>services := map (\<lambda>s. if service_id s = sid
                    then svc\<lparr>service_name := n, description := de, price_display := p\<rparr>
                    else s) (services d)\<rparr>))
       \<and> (form req ''image_file'' = Some i \<and> i \<noteq> [] \<longrightarrow>
            serve lib (Edit_service sid) req sess d =
              (Inr (Redirect (Url_for ''dashboard'' [])), sess,
               d\<lparr>services := map (\<lambda>s. if service_id s = sid
                    then svc\<lparr>service_name := n, description := de, price_display := p,
                             image_file := i\<rparr>
                    else s) (services d)\<rparr>))"
proof -
  have sid: "service_id svc = sid"
    using assms(2) by (auto simp: find_Some_iff)
  show ?thesis
    using assms(1,2,5,6,8,10) sid sqlite_int_range [OF assms(3,4)]
    by (cases "form req ''image_file''")
       (auto simp: serve_def dispatch_def edit_service_def admin_required_def get_or_404_def
          commit_service_update_def)
qed

theorem edit_service_post_witness:
  "serve toy_library (Edit_service 1)
     (form_request POST ''/admin/services/edit/1''
        [(''name'', ''Ads''), (''description'', ''New''), (''price_display'', ''$20''),
         (''image_file'', [])])
     admin_session one_service_db
   = (Inr (Redirect (Url_for ''dashboard'' [])), admin_session,
      one_service_db\<lparr>services :=
        [\<lparr>service_id = 1, service_name = ''Ads'', description = ''New'',
          price_display = ''$20'', image_file = ''m.png''\<rparr>]\<rparr>)
   \<and> serve toy_library (Edit_service 1)
     (form_request POST ''/admin/services/edit/1''
        [(''name'', ''Ads''), (''description'', ''New''), (''price_display'', ''$20''),
         (''image_file'', ''a.png'')])
     admin_session one_service_db
   = (Inr (Redirect (Url_for ''dashboard'' [])), admin_session,
      one_service_db\<lparr>services :=
        [\<lparr>service_id = 1, service_name = ''Ads'', description = ''New'',
          price_display = ''$20'', image_file = ''a.png''\<rparr>]\<rparr>)"
  using edit_service_post [of admin_session 1 one_service_db
          "\<lparr>service_id = 1, service_name = ''Marketing'', description = ''Campaigns'',
            price_display = ''$10'', image_file = ''m.png''\<rparr>"
          "form_request POST ''/admin/services/edit/1''
            [(''name'', ''Ads''), (''description'', ''New''), (''price_display'', ''$20''),
             (''image_file'', [])]"
          "''Ads''" "''New''" "''$20''" toy_library "''a.png''"]
        edit_service_post [of admin_session 1 one_service_db
          "\<lparr>service_id = 1, service_name = ''Marketing'', description = ''Campaigns'',
            price_display = ''$10'', image_file = ''m.png''\<rparr>"
          "form_request POST ''/admin/services/edit/1''
            [(''name'', ''Ads''), (''description'', ''New''), (''price_display'', ''$20''),
             (''image_file'', ''a.png'')]"
          "''Ads''" "''New''" "''$20''" toy_library "''a.png''"]
  by (simp add: admin_session_def session_get_def one_service_db_def form_request_def)

text \<open>
  Claim C7 holds of \<^verbatim>\<open>add_service\<close>, which refuses an empty name, description or price,
  and fails on \<^verbatim>\<open>edit_service\<close>, which has no such check: the same form that the add
  route refuses is written to the row by the edit route.
\<close>

theorem edit_service_empty_name:
  "serve toy_library (Edit_service 1)
     (form_request POST ''/admin/services/edit/1''
        [(''name'', []), (''description'', []), (''price_display'', [])])
     admin_session one_service_db
   = (Inr (Redirect (Url_for ''dashboard'' [])), admin_session,
      one_service_db\<lparr>services :=
        [\<lparr>service_id = 1, service_name = [], description = [], price_display = [],
          image_file = ''m.png''\<rparr>]\<rparr>)
   \<and> serve toy_library Add_service
     (form_request POST ''/admin/services/add''
        [(''name'', []), (''description'', []), (''price_display'', [])])
     admin_session one_service_db
   = (Inr (Render_template ''service_form.html''
            [(''error'', Error ''All fields are required''), (''service'', Service None)]),
      admin_session, one_service_db)"
  by (simp add: serve_def dispatch_def edit_service_def add_service_def admin_required_def
      get_or_404_def sqlite_int_def commit_service_update_def form_request_def
      admin_session_def session_get_def one_service_db_def)

section \<open>Orders\<close>

lemma float_of_int_small: "\<bar>i\<bar> < 2 ^ 53 \<Longrightarrow> float_of_int i = Inr (Finite (of_int i))"
  by (simp add: float_of_int_def Let_def nat_less_iff)

lemma bind_param_Inr: "bind_param v = Inr w \<Longrightarrow> w = v"
  by (cases v) (auto split: if_splits)



lemma commit_order_Inr:
  assumes "commit_order items t n e m tm d = Inr d'"
  shows "d' = d\<lparr>orders := orders d @
             [\<lparr>order_id = next_id (map order_id (orders d)), items_json = items,
               order_total = t, order_name = n, order_email = e, order_message = m,
               order_created_at = tm\<rparr>]\<rparr>"
proof -
  from assms obtain n' e' m' where b: "bind_param n = Inr n'" "bind_param e = Inr e'"
      "bind_param m = Inr m'"
    by (auto simp: commit_order_def split: sum.splits)
  from b have "n' = n" "e' = e" "m' = m" by (auto dest: bind_param_Inr)
  with assms b show ?thesis
    by (auto simp: commit_order_def split: if_splits)
qed

lemma order_cases:
  assumes "get_json req = Inr (PDict data)" and "req_method req = POST"
  shows "serve lib Order req sess d =
    (if \<not> truthy (dict_get data ''items'' (PList [])) \<or> \<not> truthy (dict_get data ''name'' PNone)
        \<or> \<not> truthy (dict_get data ''email'' PNone)
     then (Inr (Jsonify (PDict [(''status'', PStr ''error''),
                 (''message'', PStr ''Missing required information.'')]) 400), sess, d)
     else (case py_float (float_of_str lib) (dict_get data ''total'' (PInt 0)) of
             Inl e \<Rightarrow> (Inl (status_code e), sess, d)
           | Inr t \<Rightarrow>
              (case commit_order
                      (dumps (float_repr lib) (dict_get data ''items'' (PList []))) t
                      (dict_get data ''name'' PNone) (dict_get data ''email'' PNone)
                      (dict_get data ''message'' (PStr [])) (utcnow req) d of
                 Inl e \<Rightarrow> (Inl (status_code e), sess, d)
               | Inr d' \<Rightarrow>
                  (Inr (Jsonify (PDict [(''status'', PStr ''success'')]) 200), sess, d'))))"
proof (cases "data = []")
  case True
  then show ?thesis using assms
    by (simp add: serve_def dispatch_def order_def Let_def dict_get_def)
next
  case False
  then show ?thesis using assms
    by (auto simp: serve_def dispatch_def order_def Let_def split: sum.splits)
qed





text \<open>
  Claim C8, as stated, has every persisted Order hold a non-negative total. The handler
  stores \<^verbatim>\<open>float(total)\<close> without looking at its sign: a total of \<open>-5\<close> is stored as
  \<open>-5.0\<close>.
\<close>

theorem order_negative_total:
  "serve toy_library Order
     (json_request ''/order''
        (PDict [(''items'', PList [PInt 1]), (''total'', PInt (- 5)), (''name'', PStr ''Ann''),
                (''email'', PStr ''a@b.c'')]))
     Map.empty empty_db
   = (Inr (Jsonify (PDict [(''status'', PStr ''success'')]) 200), Map.empty,
      empty_db\<lparr>orders :=
        [\<lparr>order_id = 1, items_json = ''[1]'', order_total = Finite (- 5),
          order_name = PStr ''Ann'', order_email = PStr ''a@b.c'', order_message = PStr [],
          order_created_at = 7\<rparr>]\<rparr>)
   \<and> (- 5 :: real) < 0"
  by (simp add: serve_def dispatch_def order_def json_request_def dict_get_def Let_def
      float_of_int_small commit_order_def is_null_def empty_db_def next_id_def
      toy_library_def str_int_def digits.simps digit_char_def)

text \<open>
  Claim C8, amended. Every Order a POST to \<^verbatim>\<open>/order\<close> creates stores \<^verbatim>\<open>float(total)\<close> of
  the submitted total (of 0 when the key is missing), whatever its sign: for an integer
  total below \<open>2^53\<close> in magnitude the stored total is that integer, negative when it is.
\<close>

theorem order_total_stored:
  assumes "req_method req = POST"
      and "get_json req = Inr (PDict data)"
      and "serve lib Order req sess d = (r, sess', d')"
      and "d' \<noteq> d"
  shows "\<exists>t. py_float (float_of_str lib) (dict_get data ''total'' (PInt 0)) = Inr t
           \<and> d' = d\<lparr>orders := orders d @
                 [\<lparr>order_id = next_id (map order_id (orders d)),
                   items_json = dumps (float_repr lib) (dict_get data ''items'' (PList [])),
                   order_total = t,
                   order_name = dict_get data ''name'' PNone,
                   order_email = dict_get data ''email'' PNone,
                   order_message = dict_get data ''message'' (PStr []),
                   order_created_at = utcnow req\<rparr>]\<rparr>
           \<and> (\<forall>i. dict_get data ''total'' (PInt 0) = PInt i \<and> \<bar>i\<bar> < 2 ^ 53
                  \<longrightarrow> t = Finite (of_int i))"
  using assms(3,4) unfolding order_cases [OF assms(2,1)]
  by (auto simp: float_of_int_small split: if_splits sum.splits dest: commit_order_Inr)

theorem order_total_stored_witness:
  "\<exists>t. py_float (float_of_str toy_library) (PStr ''12.5'') = Inr t
     \<and> serve toy_library Order
     (json_request ''/order''
        (PDict [(''items'', PList [PInt 1]), (''total'', PStr ''12.5''), (''name'', PStr ''Ann''),
                (''email'', PStr ''a@b.c'')]))
     Map.empty empty_db
   = (Inr (Jsonify (PDict [(''status'', PStr ''success'')]) 200), Map.empty,
      empty_db\<lparr>orders :=
        [\<lparr>order_id = 1, items_json = ''[1]'', order_total = t, order_name = PStr ''Ann'',
          order_email = PStr ''a@b.c'', order_message = PStr [], order_created_at = 7\<rparr>]\<rparr>)"
proof -
  let ?data = "[(''items'', PList [PInt 1]), (''total'', PStr ''12.5''), (''name'', PStr ''Ann''),
                (''email'', PStr ''a@b.c'')]"
  let ?req = "json_request ''/order'' (PDict ?data)"
  obtain r s d' where e: "serve toy_library Order ?req Map.empty empty_db = (r, s, d')"
    by (cases "serve toy_library Order ?req Map.empty empty_db") auto
  have v: "serve toy_library Order ?req Map.empty empty_db
   = (Inr (Jsonify (PDict [(''status'', PStr ''success'')]) 200), Map.empty,
      empty_db\<lparr>orders :=
        [\<lparr>order_id = 1, items_json = ''[1]'', order_total = Finite 12.5,
          order_name = PStr ''Ann'', order_email = PStr ''a@b.c'', order_message = PStr [],
          order_created_at = 7\<rparr>]\<rparr>)"
    by (simp add: serve_def dispatch_def order_def json_request_def dict_get_def Let_def
      commit_order_def is_null_def empty_db_def next_id_def toy_library_def
      str_int_def digits.simps digit_char_def)
  have ne: "d' \<noteq> empty_db" using e v by (auto simp: empty_db_def)
  have p: "req_method ?req = POST" "get_json ?req = Inr (PDict ?data)"
    by (simp_all add: json_request_def)
  from order_total_stored [OF p e ne] e v show ?thesis
    by (auto simp: dict_get_def toy_library_def json_request_def empty_db_def next_id_def
        str_int_def digits.simps digit_char_def)
qed

section \<open>Reading a serialised value back\<close>






































lemma take_neq: "c \<noteq> d \<Longrightarrow> take (Suc k) (c # cs) \<noteq> d # ds"
  by simp






lemma skip_ws_simps [simp]:
  "skip_ws (CHR '','' # s) = CHR '','' # s"
  "skip_ws (CHR '']'' # s) = CHR '']'' # s"
  "skip_ws (CHR ''}'' # s) = CHR ''}'' # s"
  "skip_ws (CHR '':'' # s) = CHR '':'' # s"
  "skip_ws (CHR '' '' # s) = skip_ws s"
  by (simp_all add: skip_ws_def is_ws_def)














section \<open>Order submissions\<close>





end
